theory Spec2Isabelle
  imports Complex_Main
begin

section \<open>Data model of the whiteboard canvas component\<close>

text \<open>
  The component \<^verbatim>\<open>WhiteboardCanvas\<close> keeps the board in React state and changes it in event
  handlers. Each handler is embedded as a function from the state of the latest render to
  the next state, together with the list of socket events it emits.

  JavaScript numbers are embedded as real numbers: rounding, overflow and the special
  values of IEEE doubles are not part of the model. A slot of a \<^verbatim>\<open>number[]\<close> that the source
  reads out of range yields \<^verbatim>\<open>undefined\<close>; such a slot is \<open>Undefined\<close> below, and arithmetic
  on it gives \<^verbatim>\<open>NaN\<close>, which compares false with everything.

  Field names follow the source; the fields \<^verbatim>\<open>x\<close>, \<^verbatim>\<open>y\<close>, \<^verbatim>\<open>type\<close>, \<^verbatim>\<open>width\<close>, \<^verbatim>\<open>height\<close>,
  \<^verbatim>\<open>tool\<close> of \<^verbatim>\<open>ShapeData\<close> carry the prefix \<open>shape_\<close>, the fields of \<^verbatim>\<open>Viewport\<close> the prefix
  \<open>vp_\<close>, and the fields of a history entry the prefix \<open>snap_\<close>.
\<close>

datatype jsnum = Num real | Undefined

record LineData =
  points :: "jsnum list"
  tool :: string
  color :: string
  lineWidth :: real

record ShapeData =
  shape_type :: string
  shape_x :: real
  shape_y :: real
  shape_width :: real
  shape_height :: real
  shape_tool :: string

record Viewport =
  vp_x :: real
  vp_y :: real
  vp_scale :: real

record Snapshot =
  snap_lines :: "LineData list"
  snap_shapes :: "ShapeData list"

record Canvas =
  lines :: "LineData list"
  shapes :: "ShapeData list"
  selectedTool :: string
  selectedColor :: string
  selectedLineWidth :: real
  history :: "Snapshot list"
  historyIndex :: int
  viewport :: Viewport
  isPanning :: bool
  isDrawing :: bool
  isDrawingRef :: bool
  startPos :: "(real \<times> real) option"
  lastPanPos :: "(real \<times> real) option"

text \<open>The state of the first render: the initial values of the \<^verbatim>\<open>useState\<close> and \<^verbatim>\<open>useRef\<close> hooks.\<close>

definition emptySnapshot :: Snapshot where
  "emptySnapshot = \<lparr>snap_lines = [], snap_shapes = []\<rparr>"

definition initialCanvas :: Canvas where
  "initialCanvas =
     \<lparr>lines = [], shapes = [], selectedTool = ''pen'', selectedColor = ''#000000'',
      selectedLineWidth = 2, history = [emptySnapshot], historyIndex = 0,
      viewport = \<lparr>vp_x = 0, vp_y = 0, vp_scale = 1\<rparr>,
      isPanning = False, isDrawing = False, isDrawingRef = False,
      startPos = None, lastPanPos = None\<rparr>"

text \<open>What a stroke or shape travels as on the wire, and the events the component emits.\<close>

datatype StrokeData = Line LineData | Shape ShapeData

datatype Emit =
    EmitDraw string StrokeData
  | EmitUpdateBoard string "LineData list" "ShapeData list"
  | EmitClearBoard string

section \<open>Geometry and viewport transform\<close>

definition screenToWorld :: "Viewport \<Rightarrow> real \<Rightarrow> real \<Rightarrow> real \<times> real" where
  "screenToWorld v screenX screenY =
     ((screenX - vp_x v) / vp_scale v, (screenY - vp_y v) / vp_scale v)"

definition worldToScreen :: "Viewport \<Rightarrow> real \<Rightarrow> real \<Rightarrow> real \<times> real" where
  "worldToScreen v worldX worldY =
     (worldX * vp_scale v + vp_x v, worldY * vp_scale v + vp_y v)"

text \<open>
  The pointer of a mouse or wheel event, and the bounding rectangle of the canvas element
  (\<open>None\<close> when the canvas is not mounted; only its \<^verbatim>\<open>left\<close> and \<^verbatim>\<open>top\<close> are read).
\<close>

record MouseEvent =
  button :: int
  clientX :: real
  clientY :: real

record WheelEvent =
  deltaY :: real
  wheelClientX :: real
  wheelClientY :: real

type_synonym Rect = "(real \<times> real) option"

definition getMousePos :: "Viewport \<Rightarrow> Rect \<Rightarrow> MouseEvent \<Rightarrow> real \<times> real" where
  "getMousePos v rect e =
     (case rect of
        None \<Rightarrow> (0, 0)
      | Some (rectLeft, rectTop) \<Rightarrow> screenToWorld v (clientX e - rectLeft) (clientY e - rectTop))"

definition zoomFactor :: real where
  "zoomFactor = 0.1"

definition handleWheel :: "Rect \<Rightarrow> WheelEvent \<Rightarrow> Canvas \<Rightarrow> Canvas" where
  "handleWheel rect e s =
     (let delta = (if deltaY e > 0 then 1 - zoomFactor else 1 + zoomFactor) in
      case rect of
        None \<Rightarrow> s
      | Some (rectLeft, rectTop) \<Rightarrow>
          let mouseX = wheelClientX e - rectLeft;
              mouseY = wheelClientY e - rectTop;
              prev = viewport s;
              newScale = max 0.1 (min 5 (vp_scale prev * delta));
              scaleRatio = newScale / vp_scale prev
          in s\<lparr>viewport :=
                 \<lparr>vp_x = mouseX - (mouseX - vp_x prev) * scaleRatio,
                  vp_y = mouseY - (mouseY - vp_y prev) * scaleRatio,
                  vp_scale = newScale\<rparr>\<rparr>)"

definition resetView :: "Canvas \<Rightarrow> Canvas" where
  "resetView s = s\<lparr>viewport := \<lparr>vp_x = 0, vp_y = 0, vp_scale = 1\<rparr>\<rparr>"

section \<open>History manager\<close>

text \<open>
  \<open>slice0 xs e\<close> is \<^verbatim>\<open>xs.slice(0, e)\<close>: a negative end counts from the end of the array,
  an end beyond the length stops at the length. \<open>elemAt xs i\<close> is the read \<^verbatim>\<open>xs[i]\<close>, which
  yields \<^verbatim>\<open>undefined\<close> (here \<open>None\<close>) outside the array.
\<close>

definition slice0 :: "'a list \<Rightarrow> int \<Rightarrow> 'a list" where
  "slice0 xs e = (if e < 0 then take (nat (int (length xs) + e)) xs else take (nat e) xs)"

definition elemAt :: "'a list \<Rightarrow> int \<Rightarrow> 'a option" where
  "elemAt xs i = (if 0 \<le> i \<and> i < int (length xs) then Some (xs ! nat i) else None)"

datatype error = TypeError

definition addToHistory :: "LineData list \<Rightarrow> ShapeData list \<Rightarrow> Canvas \<Rightarrow> Canvas" where
  "addToHistory newLines newShapes s =
     (let newHistory = slice0 (history s) (historyIndex s + 1)
                         @ [\<lparr>snap_lines = newLines, snap_shapes = newShapes\<rparr>]
      in s\<lparr>history := newHistory, historyIndex := int (length newHistory) - 1\<rparr>)"

text \<open>
  \<^verbatim>\<open>undo\<close> and \<^verbatim>\<open>redo\<close> read a field of \<^verbatim>\<open>history[newIndex]\<close>; where that entry does not
  exist the source throws a \<^verbatim>\<open>TypeError\<close>.
\<close>

definition undo :: "string \<Rightarrow> Canvas \<Rightarrow> error + Canvas \<times> Emit list" where
  "undo roomId s =
     (if historyIndex s > 0 then
        let newIndex = historyIndex s - 1 in
        case elemAt (history s) newIndex of
          None \<Rightarrow> Inl TypeError
        | Some previousState \<Rightarrow>
            Inr (s\<lparr>lines := snap_lines previousState, shapes := snap_shapes previousState,
                   historyIndex := newIndex\<rparr>,
                 [EmitUpdateBoard roomId (snap_lines previousState) (snap_shapes previousState)])
      else Inr (s, []))"

definition redo :: "string \<Rightarrow> Canvas \<Rightarrow> error + Canvas \<times> Emit list" where
  "redo roomId s =
     (if historyIndex s < int (length (history s)) - 1 then
        let newIndex = historyIndex s + 1 in
        case elemAt (history s) newIndex of
          None \<Rightarrow> Inl TypeError
        | Some nextState \<Rightarrow>
            Inr (s\<lparr>lines := snap_lines nextState, shapes := snap_shapes nextState,
                   historyIndex := newIndex\<rparr>,
                 [EmitUpdateBoard roomId (snap_lines nextState) (snap_shapes nextState)])
      else Inr (s, []))"

definition clearCanvas :: "string \<Rightarrow> Canvas \<Rightarrow> Canvas \<times> Emit list" where
  "clearCanvas roomId s =
     (s\<lparr>lines := [], shapes := [], history := [emptySnapshot], historyIndex := 0\<rparr>,
      [EmitClearBoard roomId])"

section \<open>Inbound socket events\<close>

text \<open>
  The payload of \<^verbatim>\<open>loadBoard\<close> is an array of strokes or an object whose \<^verbatim>\<open>lines\<close> and
  \<^verbatim>\<open>shapes\<close> may be absent. The payload of \<^verbatim>\<open>draw\<close> is an envelope with a \<^verbatim>\<open>strokeData\<close>
  field or the bare stroke or shape; an object with a \<^verbatim>\<open>points\<close> array is a stroke.
\<close>

datatype LoadBoardData =
    LoadArray "LineData list"
  | LoadObject "LineData list option" "ShapeData list option"

datatype DrawData =
    DrawEnvelope "string option" StrokeData
  | DrawBare StrokeData

definition onLoadBoard :: "LoadBoardData \<Rightarrow> Canvas \<Rightarrow> Canvas" where
  "onLoadBoard data s =
     (case data of
        LoadArray ls \<Rightarrow>
          s\<lparr>lines := ls, shapes := [],
            history := [emptySnapshot, \<lparr>snap_lines = ls, snap_shapes = []\<rparr>],
            historyIndex := 1\<rparr>
      | LoadObject dl ds \<Rightarrow>
          let newLines = (case dl of None \<Rightarrow> [] | Some ls \<Rightarrow> ls);
              newShapes = (case ds of None \<Rightarrow> [] | Some hs \<Rightarrow> hs)
          in s\<lparr>lines := newLines, shapes := newShapes,
               history := [emptySnapshot, \<lparr>snap_lines = newLines, snap_shapes = newShapes\<rparr>],
               historyIndex := 1\<rparr>)"

definition onDraw :: "DrawData \<Rightarrow> Canvas \<Rightarrow> Canvas" where
  "onDraw data s =
     (let payload = (case data of DrawEnvelope r sd \<Rightarrow> sd | DrawBare sd \<Rightarrow> sd) in
      case payload of
        Line l \<Rightarrow> s\<lparr>lines := lines s @ [l]\<rparr>
      | Shape sh \<Rightarrow>
          if shape_type sh = ''rectangle'' \<or> shape_type sh = ''circle''
          then s\<lparr>shapes := shapes s @ [sh]\<rparr>
          else s)"

definition onClearBoard :: "Canvas \<Rightarrow> Canvas" where
  "onClearBoard s =
     s\<lparr>lines := [], shapes := [], history := [emptySnapshot], historyIndex := 0\<rparr>"

definition onUpdateBoard :: "LineData list \<Rightarrow> ShapeData list \<Rightarrow> Canvas \<Rightarrow> Canvas" where
  "onUpdateBoard newLines newShapes s = s\<lparr>lines := newLines, shapes := newShapes\<rparr>"

section \<open>Eraser\<close>

text \<open>
  The walk over the flat point sequence of one stroke. \<open>inEraser\<close> is the test
  \<^verbatim>\<open>distance <= eraserRadius\<close>; a coordinate that is \<^verbatim>\<open>undefined\<close> makes the distance \<^verbatim>\<open>NaN\<close> and
  the test false. \<open>walkStep\<close> is one iteration of the loop, \<open>walk\<close> the loop, which reads
  \<^verbatim>\<open>points[i]\<close> and \<^verbatim>\<open>points[i + 1]\<close> in steps of two. The record \<open>Walk\<close> holds the variables
  the loop writes; \<^verbatim>\<open>hasChanges\<close> is the flag of \<^verbatim>\<open>eraseAtPoint\<close>, carried from stroke to stroke.
\<close>

definition inEraser :: "real \<Rightarrow> real \<Rightarrow> real \<Rightarrow> jsnum \<Rightarrow> jsnum \<Rightarrow> bool" where
  "inEraser x y eraserRadius pointX pointY =
     (case (pointX, pointY) of
        (Num a, Num b) \<Rightarrow> sqrt ((a - x)\<^sup>2 + (b - y)\<^sup>2) \<le> eraserRadius
      | _ \<Rightarrow> False)"

record Walk =
  segments :: "jsnum list list"
  currentSegment :: "jsnum list"
  isInEraser :: bool
  hasChanges :: bool

definition walkStep :: "real \<Rightarrow> real \<Rightarrow> real \<Rightarrow> jsnum \<Rightarrow> jsnum \<Rightarrow> Walk \<Rightarrow> Walk" where
  "walkStep x y eraserRadius pointX pointY w =
     (let wasInEraser = isInEraser w;
          w1 = w\<lparr>isInEraser := inEraser x y eraserRadius pointX pointY\<rparr>
      in if \<not> isInEraser w1 then
           (let w2 = (if wasInEraser \<and> currentSegment w1 \<noteq> []
                      then w1\<lparr>segments := segments w1 @ [currentSegment w1],
                              currentSegment := []\<rparr>
                      else w1)
            in w2\<lparr>currentSegment := currentSegment w2 @ [pointX, pointY]\<rparr>)
         else
           (let w2 = (if \<not> wasInEraser \<and> currentSegment w1 \<noteq> []
                      then w1\<lparr>segments := segments w1 @ [currentSegment w1],
                              currentSegment := []\<rparr>
                      else w1)
            in w2\<lparr>hasChanges := True\<rparr>))"

fun walk :: "real \<Rightarrow> real \<Rightarrow> real \<Rightarrow> jsnum list \<Rightarrow> Walk \<Rightarrow> Walk" where
  "walk x y r [] w = w"
| "walk x y r [pointX] w = walkStep x y r pointX Undefined w"
| "walk x y r (pointX # pointY # rest) w = walk x y r rest (walkStep x y r pointX pointY w)"

text \<open>
  The body of \<^verbatim>\<open>lines.forEach\<close>: the strokes it appends to \<^verbatim>\<open>newLines\<close> for one stroke, and
  the flag \<^verbatim>\<open>hasChanges\<close> after it.
\<close>

definition eraseLine ::
  "real \<Rightarrow> real \<Rightarrow> real \<Rightarrow> LineData \<Rightarrow> bool \<Rightarrow> LineData list \<times> bool" where
  "eraseLine x y r line chg =
     (if length (points line) < 4 then ([line], chg)
      else
        let w = walk x y r (points line)
                  \<lparr>segments = [], currentSegment = [], isInEraser = False, hasChanges = chg\<rparr>;
            segs = (if currentSegment w \<noteq> [] then segments w @ [currentSegment w]
                    else segments w)
        in (map (\<lambda>segment. \<lparr>points = segment, tool = tool line, color = color line,
                              lineWidth = lineWidth line\<rparr>)
                (filter (\<lambda>segment. length segment \<ge> 4) segs),
            hasChanges w))"

fun eraseLines ::
  "real \<Rightarrow> real \<Rightarrow> real \<Rightarrow> LineData list \<Rightarrow> LineData list \<times> bool \<Rightarrow> LineData list \<times> bool" where
  "eraseLines x y r [] acc = acc"
| "eraseLines x y r (line # rest) (newLines, chg) =
     (case eraseLine x y r line chg of
        (out, chg') \<Rightarrow> eraseLines x y r rest (newLines @ out, chg'))"

text \<open>The predicate of \<^verbatim>\<open>shapes.filter\<close> is the negation of \<open>shapeTouched\<close>.\<close>

definition shapeTouched :: "real \<Rightarrow> real \<Rightarrow> real \<Rightarrow> ShapeData \<Rightarrow> bool" where
  "shapeTouched x y eraserRadius shape =
     (if shape_type shape = ''rectangle'' then
        x \<ge> shape_x shape - eraserRadius \<and>
        x \<le> shape_x shape + shape_width shape + eraserRadius \<and>
        y \<ge> shape_y shape - eraserRadius \<and>
        y \<le> shape_y shape + shape_height shape + eraserRadius
      else if shape_type shape = ''circle'' then
        (let radius = sqrt ((shape_width shape)\<^sup>2 + (shape_height shape)\<^sup>2);
             distance = sqrt ((shape_x shape - x)\<^sup>2 + (shape_y shape - y)\<^sup>2)
         in distance \<le> radius + eraserRadius)
      else False)"

definition eraserRadius :: "Canvas \<Rightarrow> real" where
  "eraserRadius s = 12 / vp_scale (viewport s)"

definition eraseAtPoint :: "string \<Rightarrow> real \<Rightarrow> real \<Rightarrow> Canvas \<Rightarrow> Canvas \<times> Emit list" where
  "eraseAtPoint roomId x y s =
     (let r = eraserRadius s;
          (newLines, chg) = eraseLines x y r (lines s) ([], False);
          newShapes = filter (\<lambda>shape. \<not> shapeTouched x y r shape) (shapes s);
          changed = (chg \<or> (\<exists>shape \<in> set (shapes s). shapeTouched x y r shape))
      in if changed then
           (addToHistory newLines newShapes (s\<lparr>lines := newLines, shapes := newShapes\<rparr>),
            [EmitUpdateBoard roomId newLines newShapes])
         else (s, []))"

section \<open>Pointer handlers\<close>

definition handleMouseDown :: "string \<Rightarrow> Rect \<Rightarrow> MouseEvent \<Rightarrow> Canvas \<Rightarrow> Canvas \<times> Emit list" where
  "handleMouseDown roomId rect e s =
     (if button e = 1 \<or> button e = 2 then (s, [])
      else if button e = 0 then
        (if selectedTool s = ''pan'' then
           (s\<lparr>isPanning := True, lastPanPos := Some (clientX e, clientY e)\<rparr>, [])
         else
           let pos = getMousePos (viewport s) rect e;
               s1 = s\<lparr>isDrawingRef := True, isDrawing := True, startPos := Some pos\<rparr>
           in if selectedTool s = ''pen'' then
                (s1\<lparr>lines := lines s1 @
                       [\<lparr>points = [Num (fst pos), Num (snd pos)], tool = ''pen'',
                         color = selectedColor s, lineWidth = selectedLineWidth s\<rparr>]\<rparr>, [])
              else if selectedTool s = ''eraser'' then eraseAtPoint roomId (fst pos) (snd pos) s1
              else if selectedTool s = ''rectangle'' \<or> selectedTool s = ''circle'' then
                (s1\<lparr>shapes := shapes s1 @
                       [\<lparr>shape_type = selectedTool s, shape_x = fst pos, shape_y = snd pos,
                         shape_width = 0, shape_height = 0, shape_tool = selectedTool s\<rparr>]\<rparr>, [])
              else (s1, []))
      else (s, []))"

definition handleMouseMove :: "string \<Rightarrow> Rect \<Rightarrow> MouseEvent \<Rightarrow> Canvas \<Rightarrow> Canvas \<times> Emit list" where
  "handleMouseMove roomId rect e s =
     (case (isPanning s, lastPanPos s) of
        (True, Some (lastX, lastY)) \<Rightarrow>
          let panX = clientX e - lastX;
              panY = clientY e - lastY;
              prev = viewport s
          in (s\<lparr>viewport := prev\<lparr>vp_x := vp_x prev + panX, vp_y := vp_y prev + panY\<rparr>,
                lastPanPos := Some (clientX e, clientY e)\<rparr>, [])
      | _ \<Rightarrow>
          (case (isDrawingRef s, startPos s) of
             (True, Some (startX, startY)) \<Rightarrow>
               let pos = getMousePos (viewport s) rect e in
               if selectedTool s = ''pen'' then
                 (case lines s of
                    [] \<Rightarrow> (s, [])
                  | _ \<Rightarrow>
                     let lastLine = last (lines s);
                         updatedLine =
                           lastLine\<lparr>points := points lastLine @ [Num (fst pos), Num (snd pos)]\<rparr>
                     in (s\<lparr>lines := butlast (lines s) @ [updatedLine]\<rparr>, []))
               else if selectedTool s = ''eraser'' then eraseAtPoint roomId (fst pos) (snd pos) s
               else if selectedTool s = ''rectangle'' \<or> selectedTool s = ''circle'' then
                 (case shapes s of
                    [] \<Rightarrow> (s, [])
                  | _ \<Rightarrow>
                     let lastShape = last (shapes s);
                         updatedShape =
                           lastShape\<lparr>shape_width := fst pos - startX,
                                     shape_height := snd pos - startY\<rparr>
                     in (s\<lparr>shapes := butlast (shapes s) @ [updatedShape]\<rparr>, []))
               else (s, [])
           | _ \<Rightarrow> (s, [])))"

definition handleMouseUp :: "string \<Rightarrow> Canvas \<Rightarrow> Canvas \<times> Emit list" where
  "handleMouseUp roomId s =
     (if isPanning s then (s\<lparr>isPanning := False, lastPanPos := None\<rparr>, [])
      else if \<not> isDrawingRef s then (s, [])
      else
        let s1 = s\<lparr>isDrawingRef := False, isDrawing := False\<rparr> in
        if selectedTool s = ''pen'' then
          (case lines s of
             [] \<Rightarrow> (s1, [])
           | _ \<Rightarrow>
              let lastStroke = last (lines s) in
              if length (points lastStroke) > 0
              then (addToHistory (lines s) (shapes s) s1, [EmitDraw roomId (Line lastStroke)])
              else (s1, []))
        else if selectedTool s = ''rectangle'' \<or> selectedTool s = ''circle'' then
          (case shapes s of
             [] \<Rightarrow> (s1, [])
           | _ \<Rightarrow> (addToHistory (lines s) (shapes s) s1,
                    [EmitDraw roomId (Shape (last (shapes s)))]))
        else (s1, []))"

section \<open>The component as a transition system\<close>

text \<open>
  Every handler that writes the board, the history or the viewport, as one event type. The
  toolbar buttons call the state setters directly. A state is reachable when a sequence of
  events leads to it from the first render without an exception.
\<close>

datatype Event =
    MouseDown Rect MouseEvent
  | MouseMove Rect MouseEvent
  | MouseUp
  | Wheel Rect WheelEvent
  | ResetView
  | Undo
  | Redo
  | ClearCanvas
  | SetSelectedTool string
  | SetSelectedColor string
  | SetSelectedLineWidth real
  | RecvLoadBoard LoadBoardData
  | RecvDraw DrawData
  | RecvClearBoard
  | RecvUpdateBoard "LineData list" "ShapeData list"

fun dispatch :: "string \<Rightarrow> Event \<Rightarrow> Canvas \<Rightarrow> error + Canvas \<times> Emit list" where
  "dispatch roomId (MouseDown rect e) s = Inr (handleMouseDown roomId rect e s)"
| "dispatch roomId (MouseMove rect e) s = Inr (handleMouseMove roomId rect e s)"
| "dispatch roomId MouseUp s = Inr (handleMouseUp roomId s)"
| "dispatch roomId (Wheel rect e) s = Inr (handleWheel rect e s, [])"
| "dispatch roomId ResetView s = Inr (resetView s, [])"
| "dispatch roomId Undo s = undo roomId s"
| "dispatch roomId Redo s = redo roomId s"
| "dispatch roomId ClearCanvas s = Inr (clearCanvas roomId s)"
| "dispatch roomId (SetSelectedTool t) s = Inr (s\<lparr>selectedTool := t\<rparr>, [])"
| "dispatch roomId (SetSelectedColor c) s = Inr (s\<lparr>selectedColor := c\<rparr>, [])"
| "dispatch roomId (SetSelectedLineWidth w) s = Inr (s\<lparr>selectedLineWidth := w\<rparr>, [])"
| "dispatch roomId (RecvLoadBoard d) s = Inr (onLoadBoard d s, [])"
| "dispatch roomId (RecvDraw d) s = Inr (onDraw d s, [])"
| "dispatch roomId RecvClearBoard s = Inr (onClearBoard s, [])"
| "dispatch roomId (RecvUpdateBoard ls hs) s = Inr (onUpdateBoard ls hs s, [])"

inductive reachable :: "string \<Rightarrow> Canvas \<Rightarrow> bool" for roomId :: string where
  reach_init: "reachable roomId initialCanvas"
| reach_step: "reachable roomId s \<Longrightarrow> dispatch roomId ev s = Inr (s', out) \<Longrightarrow> reachable roomId s'"

definition historyInBounds :: "Canvas \<Rightarrow> bool" where
  "historyInBounds s \<longleftrightarrow> 0 \<le> historyIndex s \<and> historyIndex s \<le> int (length (history s)) - 1"

text \<open>
  The zoom stays within \<open>[0.1, 5]\<close>: the wheel handler clamps it and the reset sets it to 1.
  So the divisions by the scale in \<^verbatim>\<open>screenToWorld\<close>, \<^verbatim>\<open>handleWheel\<close> and \<^verbatim>\<open>eraseAtPoint\<close> never
  divide by zero in a reachable state. (For a scale of 0 the source computes an infinite
  value and HOL the value 0; the theorems below that depend on the scale assume it
  positive.)
\<close>

definition scaleInRange :: "Canvas \<Rightarrow> bool" where
  "scaleInRange s \<longleftrightarrow> 0.1 \<le> vp_scale (viewport s) \<and> vp_scale (viewport s) \<le> 5"

section \<open>Stroke points and rectangle bounds\<close>

text \<open>
  \<open>strokePoints\<close> lists the points of a flat sequence the way the eraser loop reads them:
  \<^verbatim>\<open>points[i]\<close> with \<^verbatim>\<open>points[i + 1]\<close> for even \<open>i\<close>, the last one paired with \<^verbatim>\<open>undefined\<close> when
  the length is odd.
\<close>

fun strokePoints :: "jsnum list \<Rightarrow> (jsnum \<times> jsnum) list" where
  "strokePoints [] = []"
| "strokePoints [pointX] = [(pointX, Undefined)]"
| "strokePoints (pointX # pointY # rest) = (pointX, pointY) # strokePoints rest"

text \<open>
  The rectangle test in the words of the specification: the point lies within the
  axis-aligned bounds of the rectangle, whatever the signs of width and height, expanded by
  \<open>r\<close> on all sides.
\<close>

definition specRectBoundsExpanded :: "real \<Rightarrow> real \<Rightarrow> real \<Rightarrow> ShapeData \<Rightarrow> bool" where
  "specRectBoundsExpanded x y r shape \<longleftrightarrow>
     min (shape_x shape) (shape_x shape + shape_width shape) - r \<le> x \<and>
     x \<le> max (shape_x shape) (shape_x shape + shape_width shape) + r \<and>
     min (shape_y shape) (shape_y shape + shape_height shape) - r \<le> y \<and>
     y \<le> max (shape_y shape) (shape_y shape + shape_height shape) + r"



section \<open>Invariant of the eraser walk\<close>

text \<open>
  A flat sequence lies outside the eraser circle when none of its points passes the test of
  the loop. During the walk every closed segment and the open segment lie outside, and the
  open segment holds whole points.
\<close>

definition segOutside :: "real \<Rightarrow> real \<Rightarrow> real \<Rightarrow> jsnum list \<Rightarrow> bool" where
  "segOutside x y r seg \<longleftrightarrow> (\<forall>(px, py) \<in> set (strokePoints seg). \<not> inEraser x y r px py)"

definition walkInv :: "real \<Rightarrow> real \<Rightarrow> real \<Rightarrow> Walk \<Rightarrow> bool" where
  "walkInv x y r w \<longleftrightarrow>
     (\<forall>seg \<in> set (segments w). segOutside x y r seg) \<and>
     segOutside x y r (currentSegment w) \<and> even (length (currentSegment w))"

section \<open>Sample boards\<close>

text \<open>
  \<open>strokeE\<close> is the straight stroke through \<open>(0,0)\<close>, \<open>(10,0)\<close>, \<open>(20,0)\<close>; \<open>boardE\<close> holds it at
  zoom 4, where the eraser radius is 3. \<open>strokeF\<close> has two points on either side of the point
  \<open>(10,0)\<close>, \<open>strokeG\<close> is a 2-point stroke around \<open>(10,0)\<close>, \<open>strokeB\<close> the stroke of the
  end-to-end scenario, \<open>strokeDot\<close> what a click with the pen at \<open>(5,5)\<close> leaves. \<open>boardA\<close> holds a
  stroke, a rectangle and a circle; \<open>rectN\<close> is the square from \<open>(0,0)\<close> to \<open>(100,100)\<close> with
  its anchor at \<open>(100,100)\<close>, and \<open>boardDrag\<close> the board after drawing it with the rectangle
  tool: pointer-down at \<open>(100,100)\<close>, pointer-move to \<open>(0,0)\<close>, pointer-up. \<open>strokeK\<close> is the
  1-point stroke at \<open>(10,0)\<close>, and \<open>boardK\<close> holds it before \<open>strokeE\<close> at zoom 4.
\<close>

definition strokeE :: LineData where
  "strokeE = \<lparr>points = [Num 0, Num 0, Num 10, Num 0, Num 20, Num 0], tool = ''pen'',
               color = ''#000000'', lineWidth = 2\<rparr>"

definition boardE :: Canvas where
  "boardE = initialCanvas\<lparr>lines := [strokeE], viewport := \<lparr>vp_x = 0, vp_y = 0, vp_scale = 4\<rparr>\<rparr>"

definition strokeF :: LineData where
  "strokeF = \<lparr>points = [Num 0, Num 0, Num 1, Num 0, Num 10, Num 0, Num 20, Num 0, Num 21, Num 0],
               tool = ''pen'', color = ''#ff0000'', lineWidth = 4\<rparr>"


definition strokeB :: LineData where
  "strokeB = \<lparr>points = [Num 0, Num 0, Num 5, Num 5], tool = ''pen'', color = ''#000000'',
               lineWidth = 2\<rparr>"




definition boardA :: Canvas where
  "boardA = initialCanvas
     \<lparr>lines := [strokeE],
      shapes := [\<lparr>shape_type = ''rectangle'', shape_x = 0, shape_y = 0, shape_width = 10,
                   shape_height = 10, shape_tool = ''rectangle''\<rparr>,
                 \<lparr>shape_type = ''circle'', shape_x = 50, shape_y = 50, shape_width = 3,
                   shape_height = 4, shape_tool = ''circle''\<rparr>]\<rparr>"

definition rectN :: ShapeData where
  "rectN = \<lparr>shape_type = ''rectangle'', shape_x = 100, shape_y = 100, shape_width = -100,
             shape_height = -100, shape_tool = ''rectangle''\<rparr>"

definition boardDrag :: Canvas where
  "boardDrag =
     fst (handleMouseUp ''room''
       (fst (handleMouseMove ''room'' (Some (0, 0)) \<lparr>button = 0, clientX = 0, clientY = 0\<rparr>
         (fst (handleMouseDown ''room'' (Some (0, 0)) \<lparr>button = 0, clientX = 100, clientY = 100\<rparr>
           (initialCanvas\<lparr>selectedTool := ''rectangle''\<rparr>))))))"



definition boardH :: Canvas where
  "boardH = initialCanvas
     \<lparr>history := [emptySnapshot, \<lparr>snap_lines = [strokeB], snap_shapes = []\<rparr>,
                  \<lparr>snap_lines = [strokeB, strokeE], snap_shapes = []\<rparr>],
      historyIndex := 0\<rparr>"

section \<open>Facts about the history manager\<close>

lemma addToHistory_inBounds: "historyInBounds (addToHistory ls hs s)"
  by (simp add: historyInBounds_def addToHistory_def Let_def)

lemma inBounds_update [simp]:
  "historyInBounds (s\<lparr>lines := a\<rparr>) = historyInBounds s"
  "historyInBounds (s\<lparr>shapes := b\<rparr>) = historyInBounds s"
  "historyInBounds (s\<lparr>selectedTool := c\<rparr>) = historyInBounds s"
  "historyInBounds (s\<lparr>selectedColor := d\<rparr>) = historyInBounds s"
  "historyInBounds (s\<lparr>selectedLineWidth := f\<rparr>) = historyInBounds s"
  "historyInBounds (s\<lparr>viewport := g\<rparr>) = historyInBounds s"
  "historyInBounds (s\<lparr>isPanning := h\<rparr>) = historyInBounds s"
  "historyInBounds (s\<lparr>isDrawing := i\<rparr>) = historyInBounds s"
  "historyInBounds (s\<lparr>isDrawingRef := j\<rparr>) = historyInBounds s"
  "historyInBounds (s\<lparr>startPos := k\<rparr>) = historyInBounds s"
  "historyInBounds (s\<lparr>lastPanPos := l\<rparr>) = historyInBounds s"
  by (simp_all add: historyInBounds_def)

lemma eraseAtPoint_inBounds:
  "historyInBounds s \<Longrightarrow> historyInBounds (fst (eraseAtPoint roomId x y s))"
  by (simp add: eraseAtPoint_def Let_def addToHistory_inBounds split: prod.splits)

lemma handleMouseDown_inBounds:
  "historyInBounds s \<Longrightarrow> historyInBounds (fst (handleMouseDown roomId rect e s))"
  by (simp add: handleMouseDown_def Let_def eraseAtPoint_inBounds)

lemma handleMouseMove_inBounds:
  "historyInBounds s \<Longrightarrow> historyInBounds (fst (handleMouseMove roomId rect e s))"
  by (simp add: handleMouseMove_def Let_def eraseAtPoint_inBounds
           split: bool.splits option.splits prod.splits list.splits)

lemma handleMouseUp_inBounds:
  "historyInBounds s \<Longrightarrow> historyInBounds (fst (handleMouseUp roomId s))"
  by (simp add: handleMouseUp_def Let_def addToHistory_inBounds split: list.splits)

lemma handleWheel_inBounds:
  "historyInBounds s \<Longrightarrow> historyInBounds (handleWheel rect e s)"
  by (simp add: handleWheel_def Let_def split: option.splits prod.splits)

lemma undo_inBounds:
  "historyInBounds s \<Longrightarrow> undo roomId s = Inr (s', out) \<Longrightarrow> historyInBounds s'"
  by (auto simp: undo_def Let_def historyInBounds_def split: if_splits option.splits)

lemma redo_inBounds:
  "historyInBounds s \<Longrightarrow> redo roomId s = Inr (s', out) \<Longrightarrow> historyInBounds s'"
  by (auto simp: redo_def Let_def historyInBounds_def split: if_splits option.splits)

lemma onLoadBoard_inBounds: "historyInBounds (onLoadBoard d s)"
  by (simp add: onLoadBoard_def historyInBounds_def Let_def split: LoadBoardData.splits)

lemma onDraw_inBounds: "historyInBounds s \<Longrightarrow> historyInBounds (onDraw d s)"
  by (simp add: onDraw_def Let_def split: DrawData.splits StrokeData.splits)

lemma dispatch_inBounds:
  assumes "historyInBounds s" and "dispatch roomId ev s = Inr (s', out)"
  shows "historyInBounds s'"
proof (cases ev)
  case (MouseDown rect e)
  with assms show ?thesis using handleMouseDown_inBounds [of s roomId rect e] by auto
next
  case (MouseMove rect e)
  with assms show ?thesis using handleMouseMove_inBounds [of s roomId rect e] by auto
next
  case MouseUp
  with assms show ?thesis using handleMouseUp_inBounds [of s roomId] by auto
next
  case (Wheel rect e)
  with assms show ?thesis using handleWheel_inBounds [of s rect e] by auto
next
  case Undo
  with assms show ?thesis using undo_inBounds [of s roomId s' out] by simp
next
  case Redo
  with assms show ?thesis using redo_inBounds [of s roomId s' out] by simp
next
  case (RecvLoadBoard d)
  with assms show ?thesis using onLoadBoard_inBounds [of d s] by auto
next
  case (RecvDraw d)
  with assms show ?thesis using onDraw_inBounds [of s d] by auto
qed (use assms in \<open>auto simp: resetView_def clearCanvas_def onClearBoard_def onUpdateBoard_def
                       historyInBounds_def\<close>)

lemma reachable_inBounds: "reachable roomId s \<Longrightarrow> historyInBounds s"
proof (induction rule: reachable.induct)
  case reach_init
  show ?case by (simp add: historyInBounds_def initialCanvas_def)
next
  case (reach_step s ev s' out)
  then show ?case by (blast intro: dispatch_inBounds)
qed

text \<open>With the index in bounds neither \<^verbatim>\<open>undo\<close> nor \<^verbatim>\<open>redo\<close> reads a missing entry.\<close>

lemma undo_no_TypeError: "historyInBounds s \<Longrightarrow> undo roomId s \<noteq> Inl TypeError"
  by (simp add: undo_def elemAt_def historyInBounds_def Let_def)

lemma redo_no_TypeError: "historyInBounds s \<Longrightarrow> redo roomId s \<noteq> Inl TypeError"
  by (simp add: redo_def elemAt_def historyInBounds_def Let_def)

section \<open>Facts about the viewport\<close>

lemma addToHistory_viewport: "viewport (addToHistory ls hs s) = viewport s"
  by (simp add: addToHistory_def Let_def)

lemma eraseAtPoint_viewport: "viewport (fst (eraseAtPoint roomId x y s)) = viewport s"
  by (simp add: eraseAtPoint_def Let_def addToHistory_viewport split: prod.splits)

lemma handleMouseDown_scale:
  "vp_scale (viewport (fst (handleMouseDown roomId rect e s))) = vp_scale (viewport s)"
  by (simp add: handleMouseDown_def Let_def eraseAtPoint_viewport)

lemma handleMouseMove_scale:
  "vp_scale (viewport (fst (handleMouseMove roomId rect e s))) = vp_scale (viewport s)"
  by (simp add: handleMouseMove_def Let_def eraseAtPoint_viewport
           split: bool.splits option.splits prod.splits list.splits)

lemma handleMouseUp_scale:
  "vp_scale (viewport (fst (handleMouseUp roomId s))) = vp_scale (viewport s)"
  by (simp add: handleMouseUp_def Let_def addToHistory_viewport split: list.splits)

lemma handleWheel_scale:
  "scaleInRange s \<Longrightarrow> scaleInRange (handleWheel rect e s)"
  by (auto simp: handleWheel_def scaleInRange_def Let_def split: option.splits prod.splits)

lemma dispatch_scale:
  assumes "scaleInRange s" and "dispatch roomId ev s = Inr (s', out)"
  shows "scaleInRange s'"
proof (cases ev)
  case (MouseDown rect e)
  with assms show ?thesis using handleMouseDown_scale [of roomId rect e s]
    by (auto simp: scaleInRange_def)
next
  case (MouseMove rect e)
  with assms show ?thesis using handleMouseMove_scale [of roomId rect e s]
    by (auto simp: scaleInRange_def)
next
  case MouseUp
  with assms show ?thesis using handleMouseUp_scale [of roomId s]
    by (auto simp: scaleInRange_def)
next
  case (Wheel rect e)
  with assms show ?thesis using handleWheel_scale [of s rect e] by auto
next
  case Undo
  with assms show ?thesis
    by (auto simp: undo_def Let_def scaleInRange_def split: if_splits option.splits)
next
  case Redo
  with assms show ?thesis
    by (auto simp: redo_def Let_def scaleInRange_def split: if_splits option.splits)
qed (use assms in \<open>auto simp: resetView_def clearCanvas_def onClearBoard_def onUpdateBoard_def
                       onLoadBoard_def onDraw_def Let_def scaleInRange_def
                       split: LoadBoardData.splits DrawData.splits StrokeData.splits\<close>)

lemma reachable_scale: "reachable roomId s \<Longrightarrow> scaleInRange s"
proof (induction rule: reachable.induct)
  case reach_init
  show ?case by (simp add: scaleInRange_def initialCanvas_def)
next
  case (reach_step s ev s' out)
  then show ?case by (blast intro: dispatch_scale)
qed

section \<open>Facts about the eraser\<close>

lemma sqrt_le_iff: "0 \<le> r \<Longrightarrow> (sqrt d \<le> r) = (d \<le> r\<^sup>2)"
  by (metis real_sqrt_le_iff real_sqrt_abs abs_of_nonneg)

lemma sqrt_3_4: "sqrt (3\<^sup>2 + 4\<^sup>2) = 5"
  by (rule real_sqrt_unique) simp_all

lemma walkStep_outside_hasChanges:
  "\<not> inEraser x y r px py \<Longrightarrow> hasChanges (walkStep x y r px py w) = hasChanges w"
  by (simp add: walkStep_def Let_def)

lemma walk_outside_hasChanges:
  "\<forall>(px, py) \<in> set (strokePoints pts). \<not> inEraser x y r px py
   \<Longrightarrow> hasChanges (walk x y r pts w) = hasChanges w"
proof (induction pts arbitrary: w rule: strokePoints.induct)
  case 1
  show ?case by simp
next
  case (2 pointX)
  then show ?case by (simp add: walkStep_outside_hasChanges)
next
  case (3 pointX pointY rest)
  then show ?case by (simp add: walkStep_outside_hasChanges)
qed

lemma eraseLine_outside_hasChanges:
  "\<forall>(px, py) \<in> set (strokePoints (points line)). \<not> inEraser x y r px py
   \<Longrightarrow> snd (eraseLine x y r line chg) = chg"
  by (simp add: eraseLine_def Let_def walk_outside_hasChanges)

lemma eraseLines_outside:
  "\<forall>line \<in> set ls. \<forall>(px, py) \<in> set (strokePoints (points line)). \<not> inEraser x y r px py
   \<Longrightarrow> snd (eraseLines x y r ls (acc, chg)) = chg"
proof (induction ls arbitrary: acc chg)
  case Nil
  show ?case by simp
next
  case (Cons line rest)
  from Cons.prems have "snd (eraseLine x y r line chg) = chg"
    by (intro eraseLine_outside_hasChanges) simp
  moreover from Cons.prems have
    "\<forall>l \<in> set rest. \<forall>(px, py) \<in> set (strokePoints (points l)). \<not> inEraser x y r px py"
    by simp
  ultimately show ?case
    using Cons.IH by (auto split: prod.splits)
qed

lemma strokePoints_append:
  "even (length xs) \<Longrightarrow> strokePoints (xs @ ys) = strokePoints xs @ strokePoints ys"
  by (induction xs rule: strokePoints.induct) simp_all

lemma walkStep_inv: "walkInv x y r w \<Longrightarrow> walkInv x y r (walkStep x y r px py w)"
  by (auto simp: walkInv_def walkStep_def Let_def segOutside_def strokePoints_append)

lemma walk_inv: "walkInv x y r w \<Longrightarrow> walkInv x y r (walk x y r pts w)"
proof (induction pts arbitrary: w rule: strokePoints.induct)
  case 1
  then show ?case by simp
next
  case (2 pointX)
  then show ?case by (simp add: walkStep_inv)
next
  case (3 pointX pointY rest)
  then show ?case by (simp add: walkStep_inv)
qed

lemma eraseLine_fragments_outside:
  assumes "4 \<le> length (points line)" and "f \<in> set (fst (eraseLine x y r line chg))"
  shows "segOutside x y r (points f)"
proof -
  let ?w0 = "\<lparr>segments = [], currentSegment = [], isInEraser = False, hasChanges = chg\<rparr>"
  have "walkInv x y r ?w0" by (simp add: walkInv_def segOutside_def)
  then have "walkInv x y r (walk x y r (points line) ?w0)" by (rule walk_inv)
  with assms show ?thesis
    by (auto simp: eraseLine_def Let_def walkInv_def split: if_splits)
qed












lemma eraseLine_strokeF:
  "eraseLine 10 0 3 strokeF False =
     ([strokeF\<lparr>points := [Num 0, Num 0, Num 1, Num 0]\<rparr>,
       strokeF\<lparr>points := [Num 20, Num 0, Num 21, Num 0]\<rparr>], True)"
  by (simp add: eraseLine_def strokeF_def walkStep_def inEraser_def sqrt_le_iff Let_def)

lemma boardDrag_eq:
  "boardDrag = initialCanvas
     \<lparr>selectedTool := ''rectangle'', shapes := [rectN], startPos := Some (100, 100),
      history := [emptySnapshot, \<lparr>snap_lines = [], snap_shapes = [rectN]\<rparr>],
      historyIndex := 1\<rparr>"
  by (simp add: boardDrag_def handleMouseUp_def handleMouseMove_def handleMouseDown_def
        initialCanvas_def getMousePos_def screenToWorld_def rectN_def addToHistory_def
        Let_def slice0_def)

text \<open>
  The shape filter keeps or drops whole shapes. For a rectangle whose width and height are
  not negative the test of the source is the test of the specification; for a circle it is
  the comparison of the distance with the radius \<open>sqrt (width\<^sup>2 + height\<^sup>2)\<close> plus the eraser
  radius.
\<close>

lemma eraseAtPoint_shapes:
  "shapes (fst (eraseAtPoint roomId x y s)) =
     filter (\<lambda>shape. \<not> shapeTouched x y (eraserRadius s) shape) (shapes s)"
  by (auto simp: eraseAtPoint_def Let_def addToHistory_def split: prod.splits
           intro: filter_True [symmetric])

lemma shapeTouched_rectangle_nonneg:
  "shape_type shape = ''rectangle'' \<Longrightarrow> 0 \<le> shape_width shape \<Longrightarrow> 0 \<le> shape_height shape \<Longrightarrow>
   shapeTouched x y r shape = specRectBoundsExpanded x y r shape"
  by (auto simp: shapeTouched_def specRectBoundsExpanded_def)

lemma shapeTouched_circle:
  "shape_type shape = ''circle'' \<Longrightarrow>
   shapeTouched x y r shape
     = (sqrt ((shape_x shape - x)\<^sup>2 + (shape_y shape - y)\<^sup>2)
          \<le> sqrt ((shape_width shape)\<^sup>2 + (shape_height shape)\<^sup>2) + r)"
  by (simp add: shapeTouched_def Let_def)

section \<open>The claims\<close>

subsection \<open>C1: eraser segmentation of the straight stroke\<close>

text \<open>
  C1 as stated fails. With the eraser circle of radius 3 at \<open>(10,0)\<close> the pass over the stroke
  \<open>(0,0)\<close>, \<open>(10,0)\<close>, \<open>(20,0)\<close> leaves no stroke on the board, not two fragments: the loop
  classifies the stored points only and computes no point on the circle.
\<close>

theorem C1_eraser_segmentation_counterexample:
  "eraserRadius boardE = 3 \<and>
   lines boardE = [\<lparr>points = [Num 0, Num 0, Num 10, Num 0, Num 20, Num 0], tool = ''pen'',
                     color = ''#000000'', lineWidth = 2\<rparr>] \<and>
   lines (fst (eraseAtPoint ''room'' 10 0 boardE)) = [] \<and>
   length (lines (fst (eraseAtPoint ''room'' 10 0 boardE))) \<noteq> 2"
  by (simp add: eraseAtPoint_def eraserRadius_def eraseLine_def boardE_def strokeE_def
        initialCanvas_def walkStep_def inEraser_def sqrt_le_iff Let_def addToHistory_def)

text \<open>
  C1, amended: on a board that holds the stroke \<open>(0,0)\<close>, \<open>(10,0)\<close>, \<open>(20,0)\<close> at zoom 4 (eraser
  radius 3), erasing at \<open>(10,0)\<close> cuts the stroke at its stored point \<open>(10,0)\<close> into the pieces
  \<open>[(0,0)]\<close> and \<open>[(20,0)]\<close>; both have fewer than 2 points and are dropped, so no fragment of
  the stroke survives and \<^verbatim>\<open>updateBoard\<close> is emitted with no strokes. For every stroke of at
  least 2 points, eraser position and radius, no fragment that survives contains a point
  within the radius.
\<close>

theorem C1_eraser_segmentation_amended:
  assumes "vp_scale (viewport s) = 4"
      and "lines s = [\<lparr>points = [Num 0, Num 0, Num 10, Num 0, Num 20, Num 0],
                       tool = t, color = c, lineWidth = lw\<rparr>]"
  shows "eraserRadius s = 3
       \<and> walk 10 0 3 [Num 0, Num 0, Num 10, Num 0, Num 20, Num 0]
           \<lparr>segments = [], currentSegment = [], isInEraser = False, hasChanges = False\<rparr>
         = \<lparr>segments = [[Num 0, Num 0]], currentSegment = [Num 20, Num 0],
            isInEraser = False, hasChanges = True\<rparr>
       \<and> lines (fst (eraseAtPoint roomId 10 0 s)) = []
       \<and> snd (eraseAtPoint roomId 10 0 s)
           = [EmitUpdateBoard roomId [] (filter (\<lambda>shape. \<not> shapeTouched 10 0 3 shape) (shapes s))]
       \<and> (\<forall>line f. 4 \<le> length (points line) \<and> f \<in> set (fst (eraseLine x y r line chg))
             \<longrightarrow> (\<forall>(px, py) \<in> set (strokePoints (points f)). \<not> inEraser x y r px py))"
proof -
  have r: "eraserRadius s = 3" using assms(1) by (simp add: eraserRadius_def)
  have w: "walk 10 0 3 [Num 0, Num 0, Num 10, Num 0, Num 20, Num 0]
           \<lparr>segments = [], currentSegment = [], isInEraser = False, hasChanges = False\<rparr>
         = \<lparr>segments = [[Num 0, Num 0]], currentSegment = [Num 20, Num 0],
            isInEraser = False, hasChanges = True\<rparr>"
    by (simp add: walkStep_def inEraser_def sqrt_le_iff Let_def)
  have e: "eraseLines 10 0 3 (lines s) ([], False) = ([], True)"
    unfolding assms(2) by (simp add: eraseLine_def w del: walk.simps)
  have l: "lines (fst (eraseAtPoint roomId 10 0 s)) = []"
    by (simp add: eraseAtPoint_def r e Let_def addToHistory_def)
  have o: "snd (eraseAtPoint roomId 10 0 s)
           = [EmitUpdateBoard roomId [] (filter (\<lambda>shape. \<not> shapeTouched 10 0 3 shape) (shapes s))]"
    by (simp add: eraseAtPoint_def r e Let_def)
  have g: "\<forall>line f. 4 \<le> length (points line) \<and> f \<in> set (fst (eraseLine x y r line chg))
             \<longrightarrow> (\<forall>(px, py) \<in> set (strokePoints (points f)). \<not> inEraser x y r px py)"
  proof (intro allI impI)
    fix line f
    assume "4 \<le> length (points line) \<and> f \<in> set (fst (eraseLine x y r line chg))"
    then have "segOutside x y r (points f)"
      using eraseLine_fragments_outside [of line f x y r chg] by simp
    then show "\<forall>(px, py) \<in> set (strokePoints (points f)). \<not> inEraser x y r px py"
      by (simp add: segOutside_def)
  qed
  from r w l o g show ?thesis by blast
qed

theorem C1_eraser_segmentation_amended_witness:
  "vp_scale (viewport boardE) = 4 \<and>
   lines boardE = [\<lparr>points = [Num 0, Num 0, Num 10, Num 0, Num 20, Num 0], tool = ''pen'',
                     color = ''#000000'', lineWidth = 2\<rparr>] \<and>
   lines (fst (eraseAtPoint ''room'' 10 0 boardE)) = [] \<and>
   snd (eraseAtPoint ''room'' 10 0 boardE) = [EmitUpdateBoard ''room'' [] []] \<and>
   4 \<le> length (points strokeF) \<and>
   strokeF\<lparr>points := [Num 0, Num 0, Num 1, Num 0]\<rparr> \<in> set (fst (eraseLine 10 0 3 strokeF False)) \<and>
   \<not> inEraser 10 0 3 (Num 1) (Num 0)"
proof -
  have a: "vp_scale (viewport boardE) = 4"
    by (simp add: boardE_def initialCanvas_def)
  have b: "lines boardE = [\<lparr>points = [Num 0, Num 0, Num 10, Num 0, Num 20, Num 0], tool = ''pen'',
                     color = ''#000000'', lineWidth = 2\<rparr>]"
    by (simp add: boardE_def strokeE_def initialCanvas_def)
  have c: "4 \<le> length (points strokeF)" by (simp add: strokeF_def)
  have d: "strokeF\<lparr>points := [Num 0, Num 0, Num 1, Num 0]\<rparr> \<in> set (fst (eraseLine 10 0 3 strokeF False))"
    by (simp add: eraseLine_strokeF)
  have sh: "shapes boardE = []" by (simp add: boardE_def initialCanvas_def)
  note t = C1_eraser_segmentation_amended [OF a b, of "''room''" 10 0 3 False]
  from t have "\<forall>(px, py) \<in> set (strokePoints (points (strokeF\<lparr>points := [Num 0, Num 0, Num 1, Num 0]\<rparr>))).
                 \<not> inEraser 10 0 3 px py"
    using c d by blast
  then have "\<not> inEraser 10 0 3 (Num 1) (Num 0)" by simp
  with t a b c d sh show ?thesis by simp
qed

subsection \<open>C2: an inbound draw event\<close>

text \<open>
  C2 as stated fails. From the first render (empty board, history of one empty snapshot,
  index 0) the inbound \<^verbatim>\<open>draw\<close> event with the stroke \<open>(0,0)\<close>, \<open>(5,5)\<close> puts the stroke on the
  board, and the history keeps its one entry: the handler writes \<^verbatim>\<open>lines\<close> only.
\<close>

theorem C2_inbound_draw_counterexample:
  "lines (onDraw (DrawEnvelope (Some ''room'') (Line strokeB)) initialCanvas) = [strokeB] \<and>
   history initialCanvas = [emptySnapshot] \<and> historyIndex initialCanvas = 0 \<and>
   length (history (onDraw (DrawEnvelope (Some ''room'') (Line strokeB)) initialCanvas)) \<noteq> 2"
  by (simp add: onDraw_def initialCanvas_def)

text \<open>
  C2, amended: an inbound \<^verbatim>\<open>draw\<close> event that carries a stroke, in an envelope or bare,
  appends exactly that stroke to the strokes of the board and changes nothing else; from the
  first render the board holds that one stroke, and the history is still the single empty
  snapshot at index 0 (length 1).
\<close>

theorem C2_inbound_draw_amended:
  "onDraw (DrawEnvelope r (Line l)) s = s\<lparr>lines := lines s @ [l]\<rparr> \<and>
   onDraw (DrawBare (Line l)) s = s\<lparr>lines := lines s @ [l]\<rparr> \<and>
   lines (onDraw (DrawEnvelope r (Line l)) initialCanvas) = [l] \<and>
   shapes (onDraw (DrawEnvelope r (Line l)) initialCanvas) = [] \<and>
   history (onDraw (DrawEnvelope r (Line l)) initialCanvas) = [emptySnapshot] \<and>
   historyIndex (onDraw (DrawEnvelope r (Line l)) initialCanvas) = 0"
  by (simp add: onDraw_def initialCanvas_def)

subsection \<open>C3: the history manager\<close>

text \<open>
  C3: \<^verbatim>\<open>undo\<close> at index 0 returns the state as it is and emits nothing; so does \<^verbatim>\<open>redo\<close> at the
  last index; a commit on a state whose index is in bounds (as after an undo) keeps the
  entries up to the current index, appends the new snapshot, and sets the index to the new
  last slot, one above the old index; and in every reachable state the index lies within
  \<open>[0, length - 1]\<close>.
\<close>

theorem C3_history_manager:
  "(historyIndex s = 0 \<longrightarrow> undo roomId s = Inr (s, []))
 \<and> (historyIndex s = int (length (history s)) - 1 \<longrightarrow> redo roomId s = Inr (s, []))
 \<and> (historyInBounds s \<longrightarrow>
      history (addToHistory newLines newShapes s)
        = take (nat (historyIndex s) + 1) (history s)
            @ [\<lparr>snap_lines = newLines, snap_shapes = newShapes\<rparr>]
    \<and> historyIndex (addToHistory newLines newShapes s) = historyIndex s + 1
    \<and> historyIndex (addToHistory newLines newShapes s)
        = int (length (history (addToHistory newLines newShapes s))) - 1)
 \<and> (reachable roomId s \<longrightarrow>
      0 \<le> historyIndex s \<and> historyIndex s \<le> int (length (history s)) - 1)"
proof (intro conjI impI)
  assume "historyIndex s = 0"
  then show "undo roomId s = Inr (s, [])" by (simp add: undo_def)
next
  assume "historyIndex s = int (length (history s)) - 1"
  then show "redo roomId s = Inr (s, [])" by (simp add: redo_def)
next
  assume b: "historyInBounds s"
  then have n: "nat (historyIndex s + 1) = nat (historyIndex s) + 1"
    by (simp add: historyInBounds_def nat_add_distrib)
  from b show "history (addToHistory newLines newShapes s)
        = take (nat (historyIndex s) + 1) (history s)
            @ [\<lparr>snap_lines = newLines, snap_shapes = newShapes\<rparr>]"
    using n by (simp add: addToHistory_def slice0_def historyInBounds_def Let_def)
  from b show "historyIndex (addToHistory newLines newShapes s) = historyIndex s + 1"
    using n by (auto simp add: addToHistory_def slice0_def historyInBounds_def Let_def min_def)
  show "historyIndex (addToHistory newLines newShapes s)
        = int (length (history (addToHistory newLines newShapes s))) - 1"
    by (simp add: addToHistory_def Let_def)
next
  assume "reachable roomId s"
  then have "historyInBounds s" by (rule reachable_inBounds)
  then show "0 \<le> historyIndex s" and "historyIndex s \<le> int (length (history s)) - 1"
    by (simp_all add: historyInBounds_def)
qed

theorem C3_history_manager_witness:
  "historyIndex initialCanvas = 0 \<and> undo ''room'' initialCanvas = Inr (initialCanvas, [])
 \<and> historyIndex initialCanvas = int (length (history initialCanvas)) - 1
 \<and> redo ''room'' initialCanvas = Inr (initialCanvas, [])
 \<and> historyInBounds boardH \<and> length (history boardH) = 3 \<and> historyIndex boardH = 0
 \<and> history (addToHistory [strokeE] [] boardH)
      = [emptySnapshot, \<lparr>snap_lines = [strokeE], snap_shapes = []\<rparr>]
 \<and> historyIndex (addToHistory [strokeE] [] boardH) = 1
 \<and> reachable ''room'' initialCanvas \<and> length (history initialCanvas) = 1"
  using C3_history_manager [of initialCanvas "''room''" "[]" "[]"]
        C3_history_manager [of boardH "''room''" "[strokeE]" "[]"]
        reach_init [of "''room''"]
  by (simp add: initialCanvas_def boardH_def historyInBounds_def)

subsection \<open>C4: the points of a committed stroke\<close>




subsection \<open>C5: an eraser pass without contact\<close>

text \<open>
  C5: at a positive zoom, when no point of any stroke lies within the eraser radius of
  \<open>(x, y)\<close> and the shape test holds for no shape, \<^verbatim>\<open>eraseAtPoint\<close> returns the state as it is
  (strokes, shapes, history and index unchanged) and emits no event.
\<close>

theorem C5_eraser_no_contact:
  assumes "0 < vp_scale (viewport s)"
      and "\<forall>line \<in> set (lines s). \<forall>(px, py) \<in> set (strokePoints (points line)).
             \<not> inEraser x y (eraserRadius s) px py"
      and "\<forall>shape \<in> set (shapes s). \<not> shapeTouched x y (eraserRadius s) shape"
  shows "eraseAtPoint roomId x y s = (s, [])"
proof -
  obtain newLines chg
    where e: "eraseLines x y (eraserRadius s) (lines s) ([], False) = (newLines, chg)"
    by (cases "eraseLines x y (eraserRadius s) (lines s) ([], False)")
  have "snd (eraseLines x y (eraserRadius s) (lines s) ([], False)) = False"
    using assms(2) by (intro eraseLines_outside) simp
  with e have "chg = False" by simp
  with e assms(3) show ?thesis
    by (simp add: eraseAtPoint_def Let_def)
qed

theorem C5_eraser_no_contact_witness:
  "0 < vp_scale (viewport boardA) \<and> eraserRadius boardA = 12 \<and>
   \<not> inEraser 100 100 12 (Num 20) (Num 0) \<and>
   eraseAtPoint ''room'' 100 100 boardA = (boardA, [])"
proof -
  have sc: "0 < vp_scale (viewport boardA)"
    by (simp add: boardA_def initialCanvas_def)
  have r: "eraserRadius boardA = 12"
    by (simp add: eraserRadius_def boardA_def initialCanvas_def)
  have p: "\<not> inEraser 100 100 12 (Num 20) (Num 0)"
    by (simp add: inEraser_def sqrt_le_iff)
  have ls: "\<forall>line \<in> set (lines boardA). \<forall>(px, py) \<in> set (strokePoints (points line)).
             \<not> inEraser 100 100 (eraserRadius boardA) px py"
    unfolding r by (simp add: boardA_def strokeE_def initialCanvas_def inEraser_def sqrt_le_iff)
  have "sqrt (50\<^sup>2 + 50\<^sup>2) > (17::real)"
    by (rule real_less_rsqrt) simp
  then have sh: "\<forall>shape \<in> set (shapes boardA). \<not> shapeTouched 100 100 (eraserRadius boardA) shape"
    unfolding r by (simp add: boardA_def initialCanvas_def shapeTouched_def sqrt_3_4)
  from sc r p C5_eraser_no_contact [OF sc ls sh, of "''room''"] show ?thesis by simp
qed

subsection \<open>C6: the shape test of the eraser\<close>

text \<open>
  C6 on the square \<open>rectN\<close>, drawn by dragging up and to the left, so that its width and
  height are negative: at zoom 1 the eraser radius is 12 and the point \<open>(50,50)\<close>, the centre
  of the square, lies within its bounds expanded by the radius, yet the test of the source
  fails for it and the pass changes nothing. The test compares with \<open>x\<close> and \<open>x + width\<close> in
  that order, which are the left and right edge only when the width is not negative.
\<close>

theorem C6_rectangle_negative_extent:
  "shapes boardDrag = [rectN] \<and>
   eraserRadius boardDrag = 12 \<and>
   specRectBoundsExpanded 50 50 (eraserRadius boardDrag) rectN \<and>
   \<not> shapeTouched 50 50 (eraserRadius boardDrag) rectN \<and>
   eraseAtPoint ''room'' 50 50 boardDrag = (boardDrag, [])"
  by (simp add: boardDrag_eq eraserRadius_def rectN_def initialCanvas_def
        specRectBoundsExpanded_def shapeTouched_def eraseAtPoint_def Let_def)

subsection \<open>C7: wheel zoom\<close>

text \<open>
  C7: for every viewport with a positive scale and every wheel event over the mounted canvas,
  the new scale is \<open>scale * 0.9\<close> (wheel down) or \<open>scale * 1.1\<close> clamped to \<open>[0.1, 5]\<close>, the
  translation is \<open>pointer - (pointer - viewport) * (newScale / scale)\<close>, and the world point
  under the pointer is the same before and after the zoom. Over the reals the two world
  points are equal, so they agree within every tolerance.
\<close>

theorem C7_wheel_zoom:
  fixes s :: Canvas and e :: WheelEvent and rectLeft rectTop :: real
  assumes "0 < vp_scale (viewport s)"
  defines "mouseX \<equiv> wheelClientX e - rectLeft"
      and "mouseY \<equiv> wheelClientY e - rectTop"
      and "v' \<equiv> viewport (handleWheel (Some (rectLeft, rectTop)) e s)"
  shows "vp_scale v' =
           max 0.1 (min 5 (vp_scale (viewport s) * (if deltaY e > 0 then 1 - 0.1 else 1 + 0.1)))
       \<and> 0.1 \<le> vp_scale v' \<and> vp_scale v' \<le> 5
       \<and> vp_x v' = mouseX - (mouseX - vp_x (viewport s)) * (vp_scale v' / vp_scale (viewport s))
       \<and> vp_y v' = mouseY - (mouseY - vp_y (viewport s)) * (vp_scale v' / vp_scale (viewport s))
       \<and> screenToWorld v' mouseX mouseY = screenToWorld (viewport s) mouseX mouseY"
proof -
  let ?k = "max 0.1 (min 5 (vp_scale (viewport s) * (if deltaY e > 0 then 1 - 0.1 else 1 + 0.1)))"
  have scale: "vp_scale v' = ?k"
    and vx: "vp_x v' = mouseX - (mouseX - vp_x (viewport s)) * (?k / vp_scale (viewport s))"
    and vy: "vp_y v' = mouseY - (mouseY - vp_y (viewport s)) * (?k / vp_scale (viewport s))"
    by (simp_all add: v'_def mouseX_def mouseY_def handleWheel_def zoomFactor_def Let_def)
  have kpos: "0 < ?k" and klo: "0.1 \<le> ?k" and khi: "?k \<le> 5"
    by simp_all
  have "screenToWorld v' mouseX mouseY = screenToWorld (viewport s) mouseX mouseY"
    using assms(1) kpos unfolding screenToWorld_def scale vx vy
    by (simp add: field_simps)
  with scale vx vy klo khi show ?thesis by simp
qed

theorem C7_wheel_zoom_witness:
  "0 < vp_scale (viewport (initialCanvas\<lparr>viewport := \<lparr>vp_x = 10, vp_y = 20, vp_scale = 2\<rparr>\<rparr>)) \<and>
   vp_scale (viewport (handleWheel (Some (0, 0)) \<lparr>deltaY = -1, wheelClientX = 40, wheelClientY = 60\<rparr>
              (initialCanvas\<lparr>viewport := \<lparr>vp_x = 10, vp_y = 20, vp_scale = 2\<rparr>\<rparr>))) = 11 / 5 \<and>
   vp_x (viewport (handleWheel (Some (0, 0)) \<lparr>deltaY = -1, wheelClientX = 40, wheelClientY = 60\<rparr>
              (initialCanvas\<lparr>viewport := \<lparr>vp_x = 10, vp_y = 20, vp_scale = 2\<rparr>\<rparr>))) = 7 \<and>
   vp_y (viewport (handleWheel (Some (0, 0)) \<lparr>deltaY = -1, wheelClientX = 40, wheelClientY = 60\<rparr>
              (initialCanvas\<lparr>viewport := \<lparr>vp_x = 10, vp_y = 20, vp_scale = 2\<rparr>\<rparr>))) = 16 \<and>
   screenToWorld
     (viewport (handleWheel (Some (0, 0)) \<lparr>deltaY = -1, wheelClientX = 40, wheelClientY = 60\<rparr>
              (initialCanvas\<lparr>viewport := \<lparr>vp_x = 10, vp_y = 20, vp_scale = 2\<rparr>\<rparr>))) 40 60
     = (15, 20)"
proof -
  let ?s = "initialCanvas\<lparr>viewport := \<lparr>vp_x = 10, vp_y = 20, vp_scale = 2\<rparr>\<rparr>"
  let ?e = "\<lparr>deltaY = -1, wheelClientX = 40, wheelClientY = 60\<rparr>"
  have sc: "0 < vp_scale (viewport ?s)" by simp
  have old: "screenToWorld (viewport ?s) 40 60 = (15, 20)"
    by (simp add: screenToWorld_def)
  note t = C7_wheel_zoom [where s = ?s and e = ?e and rectLeft = 0 and rectTop = 0, OF sc]
  from t have k: "vp_scale (viewport (handleWheel (Some (0, 0)) ?e ?s)) = 11 / 5"
    by simp
  from t have "vp_x (viewport (handleWheel (Some (0, 0)) ?e ?s)) = 7"
    and "vp_y (viewport (handleWheel (Some (0, 0)) ?e ?s)) = 16"
    unfolding k by simp_all
  moreover from t old have "screenToWorld (viewport (handleWheel (Some (0, 0)) ?e ?s)) 40 60 = (15, 20)"
    by simp
  ultimately show ?thesis using sc k by simp
qed

subsection \<open>C8: the transform round trip\<close>

text \<open>
  C8: for every viewport with a positive scale and every world point \<open>(wx, wy)\<close>, mapping the
  point to the screen and back gives the point again. Over the reals the round trip is
  exact, so it holds within every tolerance.
\<close>

theorem C8_transform_round_trip:
  assumes "0 < vp_scale v"
  shows "(case worldToScreen v wx wy of (sx, sy) \<Rightarrow> screenToWorld v sx sy) = (wx, wy)"
  using assms by (simp add: worldToScreen_def screenToWorld_def)

theorem C8_transform_round_trip_witness:
  "0 < vp_scale \<lparr>vp_x = 30, vp_y = -12, vp_scale = 4\<rparr> \<and>
   (case worldToScreen \<lparr>vp_x = 30, vp_y = -12, vp_scale = 4\<rparr> 7 (-5) of
      (sx, sy) \<Rightarrow> screenToWorld \<lparr>vp_x = 30, vp_y = -12, vp_scale = 4\<rparr> sx sy) = (7, -5)"
  using C8_transform_round_trip [of "\<lparr>vp_x = 30, vp_y = -12, vp_scale = 4\<rparr>" 7 "-5"]
  by simp

subsection \<open>C9: pruning of short fragments\<close>




subsection \<open>C10: an inbound full snapshot\<close>

text \<open>
  C10: an inbound \<^verbatim>\<open>updateBoard\<close> event replaces the strokes and the shapes by the payload's
  and leaves the history log and the history index as they were.
\<close>

theorem C10_updateBoard_frame:
  "lines (onUpdateBoard newLines newShapes s) = newLines \<and>
   shapes (onUpdateBoard newLines newShapes s) = newShapes \<and>
   history (onUpdateBoard newLines newShapes s) = history s \<and>
   historyIndex (onUpdateBoard newLines newShapes s) = historyIndex s"
  by (simp add: onUpdateBoard_def)

end
